theory Spec2Isabelle
  imports Main
begin

section \<open>Data model of \<open>cmd/api/main.go\<close>\<close>

text \<open>
  The Go struct \<open>config\<close> with its four anonymous nested structs. Every field keeps its
  Go name; \<open>port\<close> occurs twice (\<open>cfg.port\<close>, a string, and \<open>cfg.smtp.port\<close>, an int), so
  the inner one is written \<open>smtp_config.port\<close>. The pool limits \<open>maxOpenConns\<close> and
  \<open>maxIdleConns\<close> are strings in the source, as is \<open>maxIdleTime\<close>.
\<close>

record db_config =
  dsn :: string
  maxOpenConns :: string
  maxIdleConns :: string
  maxIdleTime :: string

record limiter_config =
  rps :: int
  burst :: int
  enabled :: bool

record smtp_config =
  host :: string
  port :: int
  username :: string
  password :: string
  sender :: string

record cors_config =
  trustedOrigins :: "string list"

record config =
  port :: string
  env :: string
  db :: db_config
  limiter :: limiter_config
  smtp :: smtp_config
  cors :: cors_config

text \<open>\<open>var cfg config\<close>: every field has Go's zero value; a nil slice is the empty list.\<close>

definition zero_config :: config where
  "zero_config =
     \<lparr>port = '''', env = '''',
      db = \<lparr>dsn = '''', maxOpenConns = '''', maxIdleConns = '''', maxIdleTime = ''''\<rparr>,
      limiter = \<lparr>rps = 0, burst = 0, enabled = False\<rparr>,
      smtp = \<lparr>host = '''', smtp_config.port = 0, username = '''', password = '''',
              sender = ''''\<rparr>,
      cors = \<lparr>trustedOrigins = []\<rparr>\<rparr>"

text \<open>
  The process environment maps variable names to values. \<open>os.Getenv\<close> returns the empty
  string for a variable that is not set.
\<close>

type_synonym environ = "string \<rightharpoonup> string"

definition os_Getenv :: "environ \<Rightarrow> string \<Rightarrow> string" where
  "os_Getenv e k = (case e k of None \<Rightarrow> '''' | Some v \<Rightarrow> v)"

section \<open>The parsers of package \<open>strconv\<close>\<close>

text \<open>
  \<open>strconv.ParseUint\<close> for 64-bit results: the digit loop with its cutoff test, which
  reports a range error as soon as the value overflows (before looking at the rest of the
  string), and the underscore rule of base 0.
\<close>

datatype numError = ErrSyntax | ErrRange

definition maxUint64 :: nat where
  "maxUint64 = 2 ^ 64 - 1"

definition digitVal :: "char \<Rightarrow> nat option" where
  "digitVal c =
     (let n = (of_char c :: nat) in
      if 48 \<le> n \<and> n \<le> 57 then Some (n - 48)
      else if 97 \<le> n \<and> n \<le> 122 then Some (n - 97 + 10)
      else if 65 \<le> n \<and> n \<le> 90 then Some (n - 65 + 10)
      else None)"

fun digitLoop :: "nat \<Rightarrow> bool \<Rightarrow> string \<Rightarrow> nat \<Rightarrow> nat \<times> numError option" where
  "digitLoop base base0 [] n = (n, None)"
| "digitLoop base base0 (c # cs) n =
     (if c = CHR ''_'' \<and> base0 then digitLoop base base0 cs n
      else case digitVal c of
        None \<Rightarrow> (0, Some ErrSyntax)
      | Some d \<Rightarrow>
          if base \<le> d then (0, Some ErrSyntax)
          else if maxUint64 div base + 1 \<le> n then (maxUint64, Some ErrRange)
          else if maxUint64 < n * base + d then (maxUint64, Some ErrRange)
          else digitLoop base base0 cs (n * base + d))"

text \<open>
  \<open>underscoreOK\<close>: an underscore must separate digits; a base prefix counts as a digit.
  \<open>saw\<close> is the last character class seen: \<open>CHR ''^''\<close> at the start, \<open>CHR ''0''\<close> for a
  digit, \<open>CHR ''_''\<close> for an underscore, \<open>CHR ''!''\<close> for anything else.
\<close>

text \<open>
  Go's \<open>lower(c)\<close> is \<open>c | 0x20\<close>. Its result is only ever compared with lower-case
  letters, and for those comparisons it agrees with mapping \<open>A\<close> to \<open>Z\<close> onto \<open>a\<close> to \<open>z\<close>.
\<close>

definition lower :: "char \<Rightarrow> char" where
  "lower c = (let n = (of_char c :: nat) in if 65 \<le> n \<and> n \<le> 90 then char_of (n + 32) else c)"

definition isDecimal :: "char \<Rightarrow> bool" where
  "isDecimal c = (48 \<le> (of_char c :: nat) \<and> (of_char c :: nat) \<le> 57)"

definition isHexLetter :: "char \<Rightarrow> bool" where
  "isHexLetter c = (97 \<le> (of_char (lower c) :: nat) \<and> (of_char (lower c) :: nat) \<le> 102)"

fun underscoreLoop :: "bool \<Rightarrow> char \<Rightarrow> string \<Rightarrow> bool" where
  "underscoreLoop hex saw [] = (saw \<noteq> CHR ''_'')"
| "underscoreLoop hex saw (c # cs) =
     (if isDecimal c \<or> (hex \<and> isHexLetter c) then underscoreLoop hex (CHR ''0'') cs
      else if c = CHR ''_'' then
        (if saw \<noteq> CHR ''0'' then False else underscoreLoop hex (CHR ''_'') cs)
      else if saw = CHR ''_'' then False
      else underscoreLoop hex (CHR ''!'') cs)"

definition hasBasePrefix :: "string \<Rightarrow> bool" where
  "hasBasePrefix s =
     (case s of
        c0 # c1 # _ \<Rightarrow>
          c0 = CHR ''0'' \<and> (lower c1 = CHR ''b'' \<or> lower c1 = CHR ''o'' \<or> lower c1 = CHR ''x'')
      | _ \<Rightarrow> False)"

definition underscoreOK :: "string \<Rightarrow> bool" where
  "underscoreOK s0 =
     (let s = (case s0 of c # cs \<Rightarrow> if c = CHR ''-'' \<or> c = CHR ''+'' then cs else s0
                        | [] \<Rightarrow> s0)
      in if hasBasePrefix s
         then underscoreLoop (lower (s ! 1) = CHR ''x'') (CHR ''0'') (drop 2 s)
         else underscoreLoop False (CHR ''^'') s)"

text \<open>
  The base selection of \<open>ParseUint\<close>. Base 0 reads the prefix: \<open>0b\<close>, \<open>0o\<close> and \<open>0x\<close> need
  at least one more character, any other leading \<open>0\<close> means octal. The result is the base
  and the digits left to read.
\<close>

definition selectBase :: "nat \<Rightarrow> string \<Rightarrow> nat \<times> string" where
  "selectBase base s =
     (if base \<noteq> 0 then (base, s)
      else case s of
        c0 # rest \<Rightarrow>
          if c0 = CHR ''0'' then
            (if 3 \<le> length s \<and> lower (s ! 1) = CHR ''b'' then (2, drop 2 s)
             else if 3 \<le> length s \<and> lower (s ! 1) = CHR ''o'' then (8, drop 2 s)
             else if 3 \<le> length s \<and> lower (s ! 1) = CHR ''x'' then (16, drop 2 s)
             else (8, rest))
          else (10, s)
      | [] \<Rightarrow> (10, s))"

definition ParseUint :: "string \<Rightarrow> nat \<Rightarrow> nat \<times> numError option" where
  "ParseUint s base =
     (if s = [] then (0, Some ErrSyntax)
      else
        let (b, ds) = selectBase base s;
            r = digitLoop b (base = 0) ds 0
        in case snd r of
             Some err \<Rightarrow> r
           | None \<Rightarrow>
               if base = 0 \<and> CHR ''_'' \<in> set ds \<and> \<not> underscoreOK s
               then (0, Some ErrSyntax) else r)"

text \<open>
  \<open>strconv.ParseInt(s, base, 64)\<close>: an optional sign, then \<open>ParseUint\<close>; a syntax error
  gives 0, a range error gives the nearest bound together with the error.
\<close>

definition ParseInt :: "string \<Rightarrow> nat \<Rightarrow> int \<times> numError option" where
  "ParseInt s base =
     (case s of
        [] \<Rightarrow> (0, Some ErrSyntax)
      | c # cs \<Rightarrow>
          let neg = (c = CHR ''-'');
              s1 = (if c = CHR ''+'' \<or> c = CHR ''-'' then cs else s);
              (un, err) = ParseUint s1 base
          in if err = Some ErrSyntax then (0, err)
             else if \<not> neg \<and> 2 ^ 63 \<le> un then (2 ^ 63 - 1, Some ErrRange)
             else if neg \<and> 2 ^ 63 < un then (- (2 ^ 63), Some ErrRange)
             else (if neg then - int un else int un, None))"

text \<open>\<open>strconv.Atoi(s)\<close> is \<open>ParseInt(s, 10, 0)\<close> (its fast path computes the same).\<close>

definition Atoi :: "string \<Rightarrow> int \<times> numError option" where
  "Atoi s = ParseInt s 10"

definition ParseBool :: "string \<Rightarrow> bool \<times> numError option" where
  "ParseBool s =
     (if s \<in> set [''1'', ''t'', ''T'', ''TRUE'', ''true'', ''True''] then (True, None)
      else if s \<in> set [''0'', ''f'', ''F'', ''FALSE'', ''false'', ''False''] then (False, None)
      else (False, Some ErrSyntax))"

text \<open>
  \<open>strings.Split(s, ",")\<close> for a one-character separator: every piece between separators,
  empty pieces included, so the result of splitting the empty string is one empty piece.
\<close>

fun strings_Split :: "string \<Rightarrow> char \<Rightarrow> string list" where
  "strings_Split [] sep = [[]]"
| "strings_Split (c # cs) sep =
     (if c = sep then [] # strings_Split cs sep
      else case strings_Split cs sep of
             piece # pieces \<Rightarrow> (c # piece) # pieces
           | [] \<Rightarrow> [[c]])"

section \<open>Reading the environment\<close>

text \<open>
  \<open>log.Fatal(msg)\<close> writes \<open>msg\<close> to the standard logger and calls \<open>os.Exit(1)\<close>: the
  function that calls it never returns. A helper that may do so returns \<open>Inl msg\<close>.
\<close>

definition getEnv :: "environ \<Rightarrow> string \<Rightarrow> string \<Rightarrow> string" where
  "getEnv e k v = (if os_Getenv e k \<noteq> '''' then os_Getenv e k else v)"

definition getIntEnv :: "environ \<Rightarrow> string \<Rightarrow> int \<Rightarrow> string + int" where
  "getIntEnv e k v =
     (if os_Getenv e k = '''' then Inr v
      else case Atoi (os_Getenv e k) of
        (n, Some err) \<Rightarrow> Inl ''failed to parse int env variable''
      | (n, None) \<Rightarrow> Inr n)"

definition getBoolEnv :: "environ \<Rightarrow> string \<Rightarrow> bool \<Rightarrow> string + bool" where
  "getBoolEnv e k v =
     (if os_Getenv e k = '''' then Inr v
      else case ParseBool (os_Getenv e k) of
        (b, Some err) \<Rightarrow> Inl ''failed to parse bool env variable''
      | (b, None) \<Rightarrow> Inr b)"

section \<open>The flag set of \<open>main\<close>\<close>

text \<open>
  A registered flag is its \<open>flag.Value\<close>: the variable it is bound to (here the way it
  updates \<open>cfg\<close>) and the parser of its kind. \<open>flag.StringVar\<close>, \<open>flag.IntVar\<close> and
  \<open>flag.BoolVar\<close> bind a field; \<open>flag.Func\<close> binds a callback that receives the value.
\<close>

datatype flagValue =
    StringVar "string \<Rightarrow> config \<Rightarrow> config"
  | IntVar "int \<Rightarrow> config \<Rightarrow> config"
  | BoolVar "bool \<Rightarrow> config \<Rightarrow> config"
  | FuncVar "string \<Rightarrow> config \<Rightarrow> string + config"

text \<open>
  \<open>Value.Set\<close>: a string flag stores the text, an int flag parses it with
  \<open>strconv.ParseInt(s, 0, 64)\<close>, a bool flag with \<open>strconv.ParseBool\<close>, a func flag calls
  its callback. \<open>Inl\<close> is the error \<open>Set\<close> returns.
\<close>

fun flag_Set :: "flagValue \<Rightarrow> string \<Rightarrow> config \<Rightarrow> string + config" where
  "flag_Set (StringVar upd) s cfg = Inr (upd s cfg)"
| "flag_Set (IntVar upd) s cfg =
     (case ParseInt s 0 of
        (n, None) \<Rightarrow> Inr (upd n cfg)
      | (n, Some ErrSyntax) \<Rightarrow> Inl ''parse error''
      | (n, Some ErrRange) \<Rightarrow> Inl ''value out of range'')"
| "flag_Set (BoolVar upd) s cfg =
     (case ParseBool s of
        (b, None) \<Rightarrow> Inr (upd b cfg)
      | (b, Some err) \<Rightarrow> Inl ''parse error'')"
| "flag_Set (FuncVar fn) s cfg = fn s cfg"

fun IsBoolFlag :: "flagValue \<Rightarrow> bool" where
  "IsBoolFlag (BoolVar upd) = True"
| "IsBoolFlag v = False"

text \<open>
  The callback of \<open>flag.Func("cors-trusted-origins", ...)\<close> (lines 88 to 91). Its
  parameter \<open>val\<close> is not used in its body: the list is split from the environment
  variable \<open>CORS_TRUSTED_ORIGIN\<close>, or from \<open>"*"\<close>.
\<close>

definition cors_func :: "environ \<Rightarrow> string \<Rightarrow> config \<Rightarrow> string + config" where
  "cors_func e val cfg =
     Inr (cfg\<lparr>cors := (cors cfg)
            \<lparr>trustedOrigins := strings_Split (getEnv e ''CORS_TRUSTED_ORIGIN'' ''*'') (CHR '','')\<rparr>\<rparr>)"

text \<open>The fifteen flags \<open>main\<close> defines, by name, each bound to its field of \<open>cfg\<close>.\<close>

definition formal :: "environ \<Rightarrow> (string \<times> flagValue) list" where
  "formal e =
     [(''port'', StringVar (\<lambda>v c. c\<lparr>port := v\<rparr>)),
      (''env'', StringVar (\<lambda>v c. c\<lparr>env := v\<rparr>)),
      (''db-dsn'', StringVar (\<lambda>v c. c\<lparr>db := (db c)\<lparr>dsn := v\<rparr>\<rparr>)),
      (''db-max-open-conns'', StringVar (\<lambda>v c. c\<lparr>db := (db c)\<lparr>maxOpenConns := v\<rparr>\<rparr>)),
      (''db-max-idle-conns'', StringVar (\<lambda>v c. c\<lparr>db := (db c)\<lparr>maxIdleConns := v\<rparr>\<rparr>)),
      (''db-max-idle-time'', StringVar (\<lambda>v c. c\<lparr>db := (db c)\<lparr>maxIdleTime := v\<rparr>\<rparr>)),
      (''limiter-rps'', IntVar (\<lambda>n c. c\<lparr>limiter := (limiter c)\<lparr>rps := n\<rparr>\<rparr>)),
      (''limiter-burst'', IntVar (\<lambda>n c. c\<lparr>limiter := (limiter c)\<lparr>burst := n\<rparr>\<rparr>)),
      (''limiter-enabled'', BoolVar (\<lambda>b c. c\<lparr>limiter := (limiter c)\<lparr>enabled := b\<rparr>\<rparr>)),
      (''smtp-host'', StringVar (\<lambda>v c. c\<lparr>smtp := (smtp c)\<lparr>host := v\<rparr>\<rparr>)),
      (''smtp-port'', IntVar (\<lambda>n c. c\<lparr>smtp := (smtp c)\<lparr>smtp_config.port := n\<rparr>\<rparr>)),
      (''smtp-username'', StringVar (\<lambda>v c. c\<lparr>smtp := (smtp c)\<lparr>username := v\<rparr>\<rparr>)),
      (''smtp-password'', StringVar (\<lambda>v c. c\<lparr>smtp := (smtp c)\<lparr>password := v\<rparr>\<rparr>)),
      (''smtp-sender'', StringVar (\<lambda>v c. c\<lparr>smtp := (smtp c)\<lparr>sender := v\<rparr>\<rparr>)),
      (''cors-trusted-origins'', FuncVar (cors_func e))]"

text \<open>
  Defining a flag stores its default in the bound variable at once, so after lines 70 to
  91 \<open>cfg\<close> holds the defaults. The default expressions are evaluated in source order;
  \<open>getIntEnv\<close> and \<open>getBoolEnv\<close> may end the process there. \<open>flag.Func\<close> stores nothing:
  \<open>cfg.cors.trustedOrigins\<close> stays nil. \<open>db-dsn\<close> reads \<open>GREENLIGHT_DB_DSN\<close> directly; the
  three pool settings all read \<open>DB_MAX_IDLE_TIME\<close>.
\<close>

definition define_flags :: "environ \<Rightarrow> string + config" where
  "define_flags e =
     (case getIntEnv e ''LIMITER_RPS'' 2 of Inl msg \<Rightarrow> Inl msg | Inr rps0 \<Rightarrow>
      case getIntEnv e ''LIMITER_BURST'' 4 of Inl msg \<Rightarrow> Inl msg | Inr burst0 \<Rightarrow>
      case getBoolEnv e ''LIMITER_ENABLED'' True of Inl msg \<Rightarrow> Inl msg | Inr enabled0 \<Rightarrow>
      case getIntEnv e ''SMTP_PORT'' 25 of Inl msg \<Rightarrow> Inl msg | Inr port0 \<Rightarrow>
        Inr \<lparr>port = getEnv e ''PORT'' ''4000'',
             env = getEnv e ''ENVIRONMENT'' ''development'',
             db = \<lparr>dsn = os_Getenv e ''GREENLIGHT_DB_DSN'',
                   maxOpenConns = getEnv e ''DB_MAX_IDLE_TIME'' ''25'',
                   maxIdleConns = getEnv e ''DB_MAX_IDLE_TIME'' ''25'',
                   maxIdleTime = getEnv e ''DB_MAX_IDLE_TIME'' ''15m''\<rparr>,
             limiter = \<lparr>rps = rps0, burst = burst0, enabled = enabled0\<rparr>,
             smtp = \<lparr>host = getEnv e ''SMTP_HOST'' '''',
                     smtp_config.port = port0,
                     username = getEnv e ''SMTP_USERNAME'' '''',
                     password = getEnv e ''SMTP_PASSWORD'' '''',
                     sender = getEnv e ''SMTP_SENDER'' ''15m''\<rparr>,
             cors = \<lparr>trustedOrigins = []\<rparr>\<rparr>)"

text \<open>
  The command line as \<open>flag.Parse\<close> reads it: one entry for each flag occurrence, in
  order, with the flag's name and the value written for it (\<open>-name=value\<close> or
  \<open>-name value\<close>); \<open>None\<close> is a flag written without a value, which only a boolean flag
  accepts (it then means \<open>true\<close>).
\<close>

type_synonym flag_arg = "string \<times> string option"

datatype flagError = ErrHelp | FlagError string

definition parseOne :: "(string \<times> flagValue) list \<Rightarrow> flag_arg \<Rightarrow> config \<Rightarrow> flagError + config" where
  "parseOne fs a cfg =
     (case map_of fs (fst a) of
        None \<Rightarrow>
          if fst a = ''help'' \<or> fst a = ''h'' then Inl ErrHelp
          else Inl (FlagError (''flag provided but not defined: -'' @ fst a))
      | Some fl \<Rightarrow>
          if IsBoolFlag fl then
            (case flag_Set fl (case snd a of Some v \<Rightarrow> v | None \<Rightarrow> ''true'') cfg of
               Inl err \<Rightarrow> Inl (FlagError (''invalid boolean value for -'' @ fst a @ '': '' @ err))
             | Inr cfg' \<Rightarrow> Inr cfg')
          else
            (case snd a of
               None \<Rightarrow> Inl (FlagError (''flag needs an argument: -'' @ fst a))
             | Some v \<Rightarrow>
                 (case flag_Set fl v cfg of
                    Inl err \<Rightarrow> Inl (FlagError (''invalid value for flag -'' @ fst a @ '': '' @ err))
                  | Inr cfg' \<Rightarrow> Inr cfg')))"

fun flag_Parse :: "(string \<times> flagValue) list \<Rightarrow> flag_arg list \<Rightarrow> config \<Rightarrow> flagError + config" where
  "flag_Parse fs [] cfg = Inr cfg"
| "flag_Parse fs (a # as) cfg =
     (case parseOne fs a cfg of
        Inl err \<Rightarrow> Inl err
      | Inr cfg' \<Rightarrow> flag_Parse fs as cfg')"

text \<open>
  Lines 68 to 93 of \<open>main\<close>, the configuration resolver: define the flags, then parse the
  command line. The result is the way the process ended there (the exit status and what
  was logged) or the resolved \<open>cfg\<close>. The command-line flag set exits with status 2 on a
  bad flag and with status 0 after \<open>-h\<close> or \<open>-help\<close>.
\<close>

datatype stop = Fatal string | FlagExit nat

definition resolve_config :: "environ \<Rightarrow> flag_arg list \<Rightarrow> stop + config" where
  "resolve_config e args =
     (case define_flags e of
        Inl msg \<Rightarrow> Inl (Fatal msg)
      | Inr cfg0 \<Rightarrow>
          (case flag_Parse (formal e) args cfg0 of
             Inl ErrHelp \<Rightarrow> Inl (FlagExit 0)
           | Inl (FlagError msg) \<Rightarrow> Inl (FlagExit 2)
           | Inr cfg \<Rightarrow> Inr cfg))"

section \<open>Pool initialisation: \<open>openDB\<close>\<close>

text \<open>
  What lies outside the program: whether \<open>sql.Open\<close> accepts the driver name and the
  connection string, what \<open>time.ParseDuration\<close> makes of a string (a \<open>time.Duration\<close>
  counts nanoseconds), whether the database answers \<open>PingContext\<close> within the context's
  timeout, and the error, if any, that \<open>app.serve()\<close> returns. \<open>openDB\<close> and \<open>main\<close> take
  these as a parameter; the theorems hold for every choice of them.
\<close>

datatype error = Error string

datatype sql_DB = DB nat

type_synonym Duration = int

definition Second :: Duration where
  "Second = 1000000000"

record extern =
  sql_Open :: "string \<Rightarrow> string \<Rightarrow> error + sql_DB"
  time_ParseDuration :: "string \<Rightarrow> error + Duration"
  PingContext :: "sql_DB \<Rightarrow> Duration \<Rightarrow> error option"
  app_serve :: "config \<Rightarrow> error option"

text \<open>
  The calls a run makes on the outside, in order. \<open>Ping db t\<close> is \<open>db.PingContext(ctx)\<close>
  with a context that times out after \<open>t\<close>.
\<close>

datatype event =
    LogFatal string
  | FlagParse
  | SetMaxOpenConns sql_DB int
  | SetMaxIdleConns sql_DB int
  | SetConnMaxIdleTime sql_DB Duration
  | Ping sql_DB Duration
  | PrintInfo string
  | PrintFatal error
  | Publish string
  | Serve
  | Close sql_DB

text \<open>
  \<open>openDB\<close> (lines 164 to 192) returns \<open>(*sql.DB, error)\<close>: \<open>Inl err\<close> is \<open>(nil, err)\<close> and
  \<open>Inr db\<close> is \<open>(db, nil)\<close>. The first component lists the calls made on the pool.
  The errors of the two \<open>strconv.Atoi\<close> calls are discarded (\<open>_\<close>), so only the numbers
  they return are used.
\<close>

definition openDB :: "extern \<Rightarrow> config \<Rightarrow> event list \<times> (error + sql_DB)" where
  "openDB ext cfg =
     (case sql_Open ext ''postgres'' (dsn (db cfg)) of
        Inl err \<Rightarrow> ([], Inl err)
      | Inr d \<Rightarrow>
          let maxOpenCon = fst (Atoi (maxOpenConns (db cfg)));
              maxIdleCon = fst (Atoi (maxIdleConns (db cfg)));
              limits = [SetMaxOpenConns d maxOpenCon, SetMaxIdleConns d maxIdleCon]
          in case time_ParseDuration ext (maxIdleTime (db cfg)) of
               Inl err \<Rightarrow> (limits, Inl err)
             | Inr duration \<Rightarrow>
                 let calls = limits @ [SetConnMaxIdleTime d duration, Ping d (5 * Second)]
                 in case PingContext ext d (5 * Second) of
                      Some err \<Rightarrow> (calls, Inl err)
                    | None \<Rightarrow> (calls, Inr d))"

section \<open>Diagnostics\<close>

text \<open>
  An \<open>expvar.Var\<close> is either a stored string (\<open>expvar.NewString(...).Set(...)\<close>) or an
  \<open>expvar.Func\<close>, a closure called each time the variable is read. What the closures of
  \<open>main\<close> read is the state of the running process at that moment.
\<close>

definition version :: string where
  "version = ''1.0.0''"

record DBStats =
  OpenConnections :: int
  InUse :: int
  Idle :: int
  WaitCount :: int

record runtime_state =
  NumGoroutine :: int
  Stats :: "sql_DB \<Rightarrow> DBStats"
  Now_Unix :: int

datatype any = AnyString string | AnyInt int | AnyStats DBStats

datatype expvar_Var = String string | Func "runtime_state \<Rightarrow> any"

fun Value :: "expvar_Var \<Rightarrow> runtime_state \<Rightarrow> any" where
  "Value (String s) rt = AnyString s"
| "Value (Func f) rt = f rt"

text \<open>Lines 105 to 117: the four variables \<open>main\<close> publishes, in order.\<close>

definition published :: "sql_DB \<Rightarrow> (string \<times> expvar_Var) list" where
  "published d =
     [(''version'', String version),
      (''goroutines'', Func (\<lambda>rt. AnyInt (NumGoroutine rt))),
      (''database'', Func (\<lambda>rt. AnyStats (Stats rt d))),
      (''timestamp'', Func (\<lambda>rt. AnyInt (Now_Unix rt)))]"

text \<open>Polling a published variable by name while the process is in state \<open>rt\<close>.\<close>

definition poll :: "(string \<times> expvar_Var) list \<Rightarrow> string \<Rightarrow> runtime_state \<Rightarrow> any option" where
  "poll vars name rt = map_option (\<lambda>v. Value v rt) (map_of vars name)"

section \<open>The process: \<open>init\<close> and \<open>main\<close>\<close>

text \<open>
  A run of \<open>main\<close> is the list of its calls on the outside and the exit status: the
  configuration is resolved (lines 68 to 93), the pool is opened, the diagnostics are
  published and the server runs until \<open>app.serve()\<close> returns.

  Modelled from the spec: \<open>jsonlog.Logger.PrintFatal\<close>, which is not in \<open>main.go\<close>. By
  section 7 a startup failure produces a fatal log line and a non-zero exit status, so
  \<open>PrintFatal\<close> logs the error and ends the process with status 1 (the deferred
  \<open>db.Close()\<close> does not run).
\<close>

definition main :: "extern \<Rightarrow> environ \<Rightarrow> flag_arg list \<Rightarrow> event list \<times> nat" where
  "main ext e args =
     (case resolve_config e args of
        Inl (Fatal msg) \<Rightarrow> ([LogFatal msg], 1)
      | Inl (FlagExit status) \<Rightarrow> ([FlagParse], status)
      | Inr cfg \<Rightarrow>
          (case openDB ext cfg of
             (calls, Inl err) \<Rightarrow> (FlagParse # calls @ [PrintFatal err], 1)
           | (calls, Inr d) \<Rightarrow>
               let started = FlagParse # calls
                     @ [PrintInfo ''database connection pool established'']
                     @ map (\<lambda>v. Publish (fst v)) (published d)
                     @ [Serve]
               in case app_serve ext cfg of
                    Some err \<Rightarrow> (started @ [PrintFatal err], 1)
                  | None \<Rightarrow> (started @ [Close d], 0)))"

text \<open>
  \<open>init\<close> runs before \<open>main\<close>. \<open>godotenv.Load(".env")\<close> either fails (the file cannot be
  read or parsed) or yields the file's variables, which it sets in the environment
  unless a variable of that name is already set.
\<close>

definition godotenv_Load :: "environ \<Rightarrow> error + environ \<Rightarrow> error + environ" where
  "godotenv_Load e file =
     (case file of
        Inl err \<Rightarrow> Inl err
      | Inr vars \<Rightarrow> Inr (vars ++ e))"

definition run :: "extern \<Rightarrow> error + environ \<Rightarrow> environ \<Rightarrow> flag_arg list \<Rightarrow> event list \<times> nat" where
  "run ext file e args =
     (case godotenv_Load e file of
        Inl err \<Rightarrow> ([LogFatal ''Error loading .env file''], 1)
      | Inr e' \<Rightarrow> main ext e' args)"

section \<open>The background task tracker\<close>

text \<open>
  Modelled from the spec: the two operations of the Background Task Tracker (section
  4.4). \<open>main.go\<close> holds only the counter itself, the field \<open>wg sync.WaitGroup\<close> of
  \<open>application\<close>, created empty in \<open>main\<close>; the code that submits work is not in this file.
  By the spec, submitting a unit of work increments the outstanding count before the work
  is launched; the launched work is wrapped so that, whether it completes normally or
  raises an internal failure, the count is decremented exactly once, and a failure is
  reported to the log instead of being propagated; waiting for the drain blocks until the
  count is zero.
\<close>

datatype work = Completes | Fails string

record tracker =
  wg :: int
  reported :: "string list"

definition new_tracker :: tracker where
  "new_tracker = \<lparr>wg = 0, reported = []\<rparr>"

definition submit :: "tracker \<Rightarrow> tracker" where
  "submit t = t\<lparr>wg := wg t + 1\<rparr>"

definition finish :: "work \<Rightarrow> tracker \<Rightarrow> tracker" where
  "finish w t =
     (case w of
        Completes \<Rightarrow> t\<lparr>wg := wg t - 1\<rparr>
      | Fails msg \<Rightarrow> t\<lparr>reported := reported t @ [msg], wg := wg t - 1\<rparr>)"

definition drain_unblocked :: "tracker \<Rightarrow> bool" where
  "drain_unblocked t = (wg t = 0)"

text \<open>
  The tasks run concurrently; the counter is updated atomically, so an execution is an
  interleaving of the tasks' two steps: \<open>Submit i\<close> (task \<open>i\<close> is handed to the tracker)
  and \<open>Finish i\<close> (the wrapped work of task \<open>i\<close> ends, in the way \<open>works i\<close> says).
\<close>

datatype action = Submit nat | Finish nat

fun exec :: "(nat \<Rightarrow> work) \<Rightarrow> action list \<Rightarrow> tracker \<Rightarrow> tracker" where
  "exec works [] t = t"
| "exec works (Submit i # s) t = exec works s (submit t)"
| "exec works (Finish i # s) t = exec works s (finish (works i) t)"

fun submitted :: "action list \<Rightarrow> nat list" where
  "submitted [] = []"
| "submitted (Submit i # s) = i # submitted s"
| "submitted (Finish i # s) = submitted s"

fun finished :: "action list \<Rightarrow> nat list" where
  "finished [] = []"
| "finished (Submit i # s) = finished s"
| "finished (Finish i # s) = i # finished s"

text \<open>
  An interleaving is possible when every task is submitted once, and ends once, after it
  was submitted. \<open>sub\<close> and \<open>fin\<close> are the tasks submitted and ended so far.
\<close>

fun schedule_ok :: "nat list \<Rightarrow> nat list \<Rightarrow> action list \<Rightarrow> bool" where
  "schedule_ok sub fin [] = True"
| "schedule_ok sub fin (Submit i # s) = (i \<notin> set sub \<and> schedule_ok (i # sub) fin s)"
| "schedule_ok sub fin (Finish i # s) =
     (i \<in> set sub \<and> i \<notin> set fin \<and> schedule_ok sub (i # fin) s)"

section \<open>Concrete inputs\<close>

text \<open>A database that accepts the connection string and answers the ping at once.\<close>

definition ext_up :: extern where
  "ext_up =
     \<lparr>sql_Open = (\<lambda>driver s. Inr (DB 0)),
      time_ParseDuration =
        (\<lambda>s. if s = ''15m'' then Inr (900 * Second) else Inl (Error ''time: invalid duration'')),
      PingContext = (\<lambda>d t. None),
      app_serve = (\<lambda>cfg. None)\<rparr>"

text \<open>The same, with a database that does not answer before the deadline.\<close>

definition ext_down :: extern where
  "ext_down = ext_up\<lparr>PingContext := (\<lambda>d t. Some (Error ''context deadline exceeded''))\<rparr>"

text \<open>Environments and command lines used below.\<close>

definition env_cors :: environ where
  "env_cors = [''CORS_TRUSTED_ORIGIN'' \<mapsto> ''https://b.example'']"

definition args_cors :: "flag_arg list" where
  "args_cors = [(''cors-trusted-origins'', Some ''https://a.example'')]"

definition env_pool :: environ where
  "env_pool = [''DB_MAX_OPEN_CONNS'' \<mapsto> ''10'', ''DB_MAX_IDLE_CONNS'' \<mapsto> ''5'',
               ''DB_MAX_IDLE_TIME'' \<mapsto> ''15m'']"

definition args_bad_limit :: "flag_arg list" where
  "args_bad_limit = [(''db-max-open-conns'', Some ''abc'')]"

definition env_bad_port :: environ where
  "env_bad_port = [''SMTP_PORT'' \<mapsto> ''smtp'']"

definition args_good_port :: "flag_arg list" where
  "args_good_port = [(''smtp-port'', Some ''2525'')]"

text \<open>
  Three tasks, the second of which fails: all are submitted, then they end in the order
  2, 0, 1.
\<close>

definition three_works :: "nat \<Rightarrow> work" where
  "three_works i = (if i = 1 then Fails ''panic: send failed'' else Completes)"

definition three_tasks :: "action list" where
  "three_tasks = [Submit 0, Submit 1, Submit 2, Finish 2, Finish 0, Finish 1]"

section \<open>Predicates used in the statements\<close>

fun is_Ping :: "event \<Rightarrow> bool" where
  "is_Ping (Ping d t) = True"
| "is_Ping ev = False"

text \<open>
  A variable holds a malformed integer (boolean) when it is set to a non-empty string
  that \<open>strconv.Atoi\<close> (\<open>strconv.ParseBool\<close>) rejects.
\<close>

definition malformed_int :: "environ \<Rightarrow> string \<Rightarrow> bool" where
  "malformed_int e k = (os_Getenv e k \<noteq> '''' \<and> snd (Atoi (os_Getenv e k)) \<noteq> None)"

definition malformed_bool :: "environ \<Rightarrow> string \<Rightarrow> bool" where
  "malformed_bool e k = (os_Getenv e k \<noteq> '''' \<and> snd (ParseBool (os_Getenv e k)) \<noteq> None)"

section \<open>Lemmas on the configuration resolver\<close>

lemma resolve_config_Inr:
  "resolve_config e args = Inr cfg \<Longrightarrow>
     \<exists>cfg0. define_flags e = Inr cfg0 \<and> flag_Parse (formal e) args cfg0 = Inr cfg"
  by (auto simp: resolve_config_def split: sum.splits flagError.splits)

lemma define_flags_sender:
  "define_flags e = Inr c \<Longrightarrow> sender (smtp c) = getEnv e ''SMTP_SENDER'' ''15m''"
  by (auto simp: define_flags_def split: sum.splits)

lemma parseOne_keeps_sender:
  assumes "parseOne (formal e) a c = Inr c'" and "fst a \<noteq> ''smtp-sender''"
  shows "sender (smtp c') = sender (smtp c)"
  using assms
  by (auto simp: parseOne_def formal_def cors_func_def
      split: if_splits option.splits sum.splits prod.splits numError.splits)

lemma flag_Parse_keeps_sender:
  "flag_Parse (formal e) args c = Inr c' \<Longrightarrow> ''smtp-sender'' \<notin> fst ` set args
     \<Longrightarrow> sender (smtp c') = sender (smtp c)"
proof (induction args arbitrary: c)
  case Nil
  then show ?case by simp
next
  case (Cons a as)
  from Cons.prems(1) obtain c1 where p1: "parseOne (formal e) a c = Inr c1"
    and p2: "flag_Parse (formal e) as c1 = Inr c'"
    by (auto split: sum.splits)
  from Cons.prems(2) have "fst a \<noteq> ''smtp-sender''" and "''smtp-sender'' \<notin> fst ` set as"
    by auto
  with p1 p2 Cons.IH show ?case
    using parseOne_keeps_sender by metis
qed

section \<open>The default of the mail sender\<close>

text \<open>
  C10. \<open>getEnv\<close> returns the default both for a variable that is not set and for one set
  to the empty string. When \<open>SMTP_SENDER\<close> is unset (or empty), the command line has no
  \<open>smtp-sender\<close> flag and the configuration resolves, the resolved \<open>cfg.smtp.sender\<close> is the
  string \<open>15m\<close>.
\<close>

theorem smtp_sender_default:
  "(e k = None \<or> e k = Some '''' \<longrightarrow> getEnv e k v = v) \<and>
   ((e ''SMTP_SENDER'' = None \<or> e ''SMTP_SENDER'' = Some '''')
      \<and> ''smtp-sender'' \<notin> fst ` set args \<and> resolve_config e args = Inr cfg
      \<longrightarrow> sender (smtp cfg) = ''15m'')"
proof (intro conjI impI)
  assume "e k = None \<or> e k = Some ''''"
  then show "getEnv e k v = v"
    by (auto simp: getEnv_def os_Getenv_def)
next
  assume a: "(e ''SMTP_SENDER'' = None \<or> e ''SMTP_SENDER'' = Some '''')
      \<and> ''smtp-sender'' \<notin> fst ` set args \<and> resolve_config e args = Inr cfg"
  then obtain cfg0 where d: "define_flags e = Inr cfg0"
    and p: "flag_Parse (formal e) args cfg0 = Inr cfg"
    using resolve_config_Inr by blast
  from a have "getEnv e ''SMTP_SENDER'' ''15m'' = ''15m''"
    by (auto simp: getEnv_def os_Getenv_def)
  with d have "sender (smtp cfg0) = ''15m''"
    by (simp add: define_flags_sender)
  with p a show "sender (smtp cfg) = ''15m''"
    by (simp add: flag_Parse_keeps_sender)
qed

theorem smtp_sender_default_witness:
  "getEnv [''SMTP_SENDER'' \<mapsto> ''''] ''SMTP_SENDER'' ''15m'' = ''15m'' \<and>
   (\<exists>cfg. resolve_config Map.empty [(''port'', Some ''8080'')] = Inr cfg
      \<and> sender (smtp cfg) = ''15m'')"
proof -
  have "\<exists>cfg. resolve_config Map.empty [(''port'', Some ''8080'')] = Inr cfg"
    by (simp add: resolve_config_def define_flags_def getIntEnv_def getBoolEnv_def getEnv_def
        os_Getenv_def formal_def parseOne_def)
  then obtain cfg where c: "resolve_config Map.empty [(''port'', Some ''8080'')] = Inr cfg" ..
  have "sender (smtp cfg) = ''15m''"
    using smtp_sender_default
      [of Map.empty "''SMTP_SENDER''" "''15m''" "[(''port'', Some ''8080'')]" cfg] c
    by simp
  moreover have "getEnv [''SMTP_SENDER'' \<mapsto> ''''] ''SMTP_SENDER'' ''15m'' = ''15m''"
    using smtp_sender_default
      [of "[''SMTP_SENDER'' \<mapsto> '''']" "''SMTP_SENDER''" "''15m''" "[]" zero_config]
    by simp
  ultimately show ?thesis using c by blast
qed

section \<open>Evaluating the resolver\<close>

lemma Atoi_abc: "Atoi ''abc'' = (0, Some ErrSyntax)"
  by (simp add: Atoi_def ParseInt_def ParseUint_def selectBase_def digitVal_def)

lemma Atoi_25: "Atoi ''25'' = (25, None)"
  by (simp add: Atoi_def ParseInt_def ParseUint_def selectBase_def digitVal_def maxUint64_def)

lemma define_flags_empty_env:
  "define_flags Map.empty =
     Inr \<lparr>port = ''4000'', env = ''development'',
          db = \<lparr>dsn = '''', maxOpenConns = ''25'', maxIdleConns = ''25'', maxIdleTime = ''15m''\<rparr>,
          limiter = \<lparr>rps = 2, burst = 4, enabled = True\<rparr>,
          smtp = \<lparr>host = '''', smtp_config.port = 25, username = '''', password = '''',
                  sender = ''15m''\<rparr>,
          cors = \<lparr>trustedOrigins = []\<rparr>\<rparr>"
  by (simp add: define_flags_def getIntEnv_def getBoolEnv_def getEnv_def os_Getenv_def)

lemma formal_cors: "map_of (formal e) ''cors-trusted-origins'' = Some (FuncVar (cors_func e))"
  by (simp add: formal_def)

lemma parseOne_cors:
  "parseOne (formal e) (''cors-trusted-origins'', Some v) c =
     Inr (c\<lparr>cors := (cors c)
            \<lparr>trustedOrigins := strings_Split (getEnv e ''CORS_TRUSTED_ORIGIN'' ''*'') (CHR '','')\<rparr>\<rparr>)"
  by (simp add: parseOne_def formal_cors cors_func_def)

lemma parseOne_max_open:
  "parseOne (formal e) (''db-max-open-conns'', Some v) c = Inr (c\<lparr>db := (db c)\<lparr>maxOpenConns := v\<rparr>\<rparr>)"
  by (simp add: parseOne_def formal_def)

lemma getIntEnv_malformed:
  "malformed_int e k \<Longrightarrow> getIntEnv e k v = Inl ''failed to parse int env variable''"
  by (cases "Atoi (os_Getenv e k)") (auto simp: getIntEnv_def malformed_int_def)

lemma getBoolEnv_malformed:
  "malformed_bool e k \<Longrightarrow> getBoolEnv e k v = Inl ''failed to parse bool env variable''"
  by (cases "ParseBool (os_Getenv e k)") (auto simp: getBoolEnv_def malformed_bool_def)

lemma getIntEnv_cases:
  "getIntEnv e k v = Inl ''failed to parse int env variable'' \<or> (\<exists>n. getIntEnv e k v = Inr n)"
  by (cases "Atoi (os_Getenv e k)") (auto simp: getIntEnv_def split: option.splits)

lemma getBoolEnv_cases:
  "getBoolEnv e k v = Inl ''failed to parse bool env variable'' \<or> (\<exists>b. getBoolEnv e k v = Inr b)"
  by (cases "ParseBool (os_Getenv e k)") (auto simp: getBoolEnv_def split: option.splits)

lemma define_flags_malformed:
  assumes "malformed_int e ''LIMITER_RPS'' \<or> malformed_int e ''LIMITER_BURST''
     \<or> malformed_bool e ''LIMITER_ENABLED'' \<or> malformed_int e ''SMTP_PORT''"
  shows "define_flags e = Inl ''failed to parse int env variable''
     \<or> define_flags e = Inl ''failed to parse bool env variable''"
proof -
  consider (a) "malformed_int e ''LIMITER_RPS''" | (b) "malformed_int e ''LIMITER_BURST''"
    | (c) "malformed_bool e ''LIMITER_ENABLED''" | (d) "malformed_int e ''SMTP_PORT''"
    using assms by blast
  then show ?thesis
  proof cases
    case a
    then show ?thesis
      by (simp add: define_flags_def getIntEnv_malformed)
  next
    case b
    with getIntEnv_cases [of e "''LIMITER_RPS''" 2] show ?thesis
      by (auto simp: define_flags_def getIntEnv_malformed)
  next
    case c
    with getIntEnv_cases [of e "''LIMITER_RPS''" 2] getIntEnv_cases [of e "''LIMITER_BURST''" 4]
    show ?thesis
      by (auto simp: define_flags_def getBoolEnv_malformed)
  next
    case d
    with getIntEnv_cases [of e "''LIMITER_RPS''" 2] getIntEnv_cases [of e "''LIMITER_BURST''" 4]
      getBoolEnv_cases [of e "''LIMITER_ENABLED''" True]
    show ?thesis
      by (auto simp: define_flags_def getIntEnv_malformed)
  qed
qed

section \<open>Precedence and the trusted origins\<close>

text \<open>
  C1. The claim asks that a flag value override the environment for every setting, the
  trusted CORS origins included. At the command line \<open>-cors-trusted-origins=https://a.example\<close>
  with \<open>CORS_TRUSTED_ORIGIN=https://b.example\<close> in the environment, the resolved list is the
  environment's \<open>https://b.example\<close>: the callback never reads the flag's value.
\<close>

theorem cors_flag_value_ignored:
  "map_sum id (\<lambda>c. trustedOrigins (cors c)) (resolve_config env_cors args_cors)
     = Inr [''https://b.example'']"
proof -
  have "\<exists>c0. define_flags env_cors = Inr c0"
    by (simp add: define_flags_def getIntEnv_def getBoolEnv_def os_Getenv_def env_cors_def)
  then obtain c0 where d: "define_flags env_cors = Inr c0" ..
  have s: "strings_Split (getEnv env_cors ''CORS_TRUSTED_ORIGIN'' ''*'') (CHR '','')
      = [''https://b.example'']"
    by (simp add: getEnv_def os_Getenv_def env_cors_def)
  show ?thesis
    by (simp add: resolve_config_def d args_cors_def parseOne_cors s)
qed

text \<open>
  C4. The claim asks for the list \<open>["*"]\<close> when no trusted origin is supplied, and for the
  split value when one is. With no \<open>cors-trusted-origins\<close> flag the callback does not run:
  the resolved list is empty, both with an empty environment and with
  \<open>CORS_TRUSTED_ORIGIN=https://b.example\<close>.
\<close>

theorem cors_default_never_applied:
  "map_sum id (\<lambda>c. trustedOrigins (cors c)) (resolve_config Map.empty []) = Inr []
   \<and> map_sum id (\<lambda>c. trustedOrigins (cors c)) (resolve_config env_cors []) = Inr []"
  by (simp add: resolve_config_def define_flags_def getIntEnv_def getBoolEnv_def getEnv_def
      os_Getenv_def env_cors_def)

section \<open>The pool limits\<close>

text \<open>
  C3. The claim asks that each setting be read from its own variable, the two connection
  limits in particular from a max-open and a max-idle variable. With
  \<open>DB_MAX_OPEN_CONNS=10\<close>, \<open>DB_MAX_IDLE_CONNS=5\<close> and \<open>DB_MAX_IDLE_TIME=15m\<close> in the
  environment and no flag, both limits resolve to \<open>15m\<close>, the value of the idle-time
  variable.
\<close>

theorem pool_limits_read_idle_time_variable:
  "map_sum id (\<lambda>c. (maxOpenConns (db c), maxIdleConns (db c), maxIdleTime (db c)))
     (resolve_config env_pool []) = Inr (''15m'', ''15m'', ''15m'')"
  by (simp add: resolve_config_def define_flags_def getIntEnv_def getBoolEnv_def getEnv_def
      os_Getenv_def env_pool_def)

text \<open>
  C2. The claim asks that a malformed value of a scalar field end the start-up, and that
  a malformed connection limit never give a started pool with a substituted limit. At the
  command line \<open>-db-max-open-conns=abc\<close>, with a database that answers, the run sets the
  limit of open connections to 0, serves, and exits with status 0.
\<close>

theorem malformed_pool_limit_starts_pool:
  "main ext_up Map.empty args_bad_limit =
     ([FlagParse, SetMaxOpenConns (DB 0) 0, SetMaxIdleConns (DB 0) 25,
       SetConnMaxIdleTime (DB 0) (900 * Second), Ping (DB 0) (5 * Second),
       PrintInfo ''database connection pool established'',
       Publish ''version'', Publish ''goroutines'', Publish ''database'', Publish ''timestamp'',
       Serve, Close (DB 0)], 0)"
  by (simp add: main_def resolve_config_def define_flags_empty_env args_bad_limit_def
      parseOne_max_open openDB_def ext_up_def Atoi_abc Atoi_25 published_def)

section \<open>Malformed environment values\<close>

text \<open>
  C9. When \<open>LIMITER_RPS\<close>, \<open>LIMITER_BURST\<close> or \<open>SMTP_PORT\<close> holds a malformed integer, or
  \<open>LIMITER_ENABLED\<close> a malformed boolean, the run ends with status 1 on the \<open>log.Fatal\<close> of
  \<open>getIntEnv\<close> or \<open>getBoolEnv\<close>, whatever the command line is: \<open>flag.Parse\<close> is never
  reached, so no flag can replace the value.
\<close>

theorem malformed_env_fatal_before_flag_parse:
  assumes "malformed_int e ''LIMITER_RPS'' \<or> malformed_int e ''LIMITER_BURST''
     \<or> malformed_bool e ''LIMITER_ENABLED'' \<or> malformed_int e ''SMTP_PORT''"
  shows "snd (main ext e args) = 1 \<and> FlagParse \<notin> set (fst (main ext e args))
     \<and> (fst (main ext e args) = [LogFatal ''failed to parse int env variable'']
        \<or> fst (main ext e args) = [LogFatal ''failed to parse bool env variable''])"
  using define_flags_malformed [OF assms]
  by (auto simp: main_def resolve_config_def)

theorem malformed_env_fatal_before_flag_parse_witness:
  "malformed_int env_bad_port ''SMTP_PORT''
   \<and> main ext_up env_bad_port args_good_port
       = ([LogFatal ''failed to parse int env variable''], 1)"
proof -
  have m: "malformed_int env_bad_port ''SMTP_PORT''"
    by (simp add: malformed_int_def env_bad_port_def os_Getenv_def Atoi_def ParseInt_def
        ParseUint_def selectBase_def digitVal_def)
  then have h: "malformed_int env_bad_port ''LIMITER_RPS''
     \<or> malformed_int env_bad_port ''LIMITER_BURST''
     \<or> malformed_bool env_bad_port ''LIMITER_ENABLED''
     \<or> malformed_int env_bad_port ''SMTP_PORT''"
    by simp
  have "getIntEnv env_bad_port ''LIMITER_RPS'' 2 = Inr 2"
    and "getIntEnv env_bad_port ''LIMITER_BURST'' 4 = Inr 4"
    and "getBoolEnv env_bad_port ''LIMITER_ENABLED'' True = Inr True"
    by (simp_all add: getIntEnv_def getBoolEnv_def env_bad_port_def os_Getenv_def)
  then have "define_flags env_bad_port = Inl ''failed to parse int env variable''"
    by (simp add: define_flags_def getIntEnv_malformed [OF m])
  then have "fst (main ext_up env_bad_port args_good_port)
      \<noteq> [LogFatal ''failed to parse bool env variable'']"
    by (simp add: main_def resolve_config_def)
  with malformed_env_fatal_before_flag_parse [OF h, of ext_up args_good_port] m
  show ?thesis by (cases "main ext_up env_bad_port args_good_port") auto
qed

section \<open>The environment file\<close>

text \<open>
  C7. When \<open>godotenv.Load\<close> fails, the run consists of the one \<open>log.Fatal\<close> of \<open>init\<close> and
  ends with status 1: no flag is parsed, the database is not pinged, nothing is served.
\<close>

theorem missing_env_file_fatal:
  "run ext (Inl err) e args = ([LogFatal ''Error loading .env file''], 1)
   \<and> FlagParse \<notin> set (fst (run ext (Inl err) e args))
   \<and> filter is_Ping (fst (run ext (Inl err) e args)) = []
   \<and> Serve \<notin> set (fst (run ext (Inl err) e args))"
  by (simp add: run_def godotenv_Load_def)

section \<open>Diagnostics are read live\<close>

text \<open>
  C8. Polled in any two states \<open>rt\<close> and \<open>rt'\<close> of the running process, the variables
  \<open>goroutines\<close>, \<open>database\<close> and \<open>timestamp\<close> give the goroutine count, the pool statistics
  and the time of the state they are polled in; only \<open>version\<close> is a stored constant.
\<close>

theorem diagnostics_read_live_state:
  "poll (published d) ''goroutines'' rt = Some (AnyInt (NumGoroutine rt))
   \<and> poll (published d) ''database'' rt = Some (AnyStats (Stats rt d))
   \<and> poll (published d) ''timestamp'' rt = Some (AnyInt (Now_Unix rt))
   \<and> poll (published d) ''goroutines'' rt' = Some (AnyInt (NumGoroutine rt'))
   \<and> poll (published d) ''database'' rt' = Some (AnyStats (Stats rt' d))
   \<and> poll (published d) ''timestamp'' rt' = Some (AnyInt (Now_Unix rt'))
   \<and> poll (published d) ''version'' rt = Some (AnyString ''1.0.0'')
   \<and> poll (published d) ''version'' rt' = Some (AnyString ''1.0.0'')
   \<and> map fst (published d) = [''version'', ''goroutines'', ''database'', ''timestamp'']"
  by (simp add: poll_def published_def version_def)

section \<open>Pool initialisation returns a handle only after the ping\<close>

lemma openDB_cases:
  "(\<exists>err. sql_Open ext ''postgres'' (dsn (db cfg)) = Inl err \<and> openDB ext cfg = ([], Inl err))
   \<or> (\<exists>d err. sql_Open ext ''postgres'' (dsn (db cfg)) = Inr d
         \<and> time_ParseDuration ext (maxIdleTime (db cfg)) = Inl err
         \<and> openDB ext cfg =
             ([SetMaxOpenConns d (fst (Atoi (maxOpenConns (db cfg)))),
               SetMaxIdleConns d (fst (Atoi (maxIdleConns (db cfg))))], Inl err))
   \<or> (\<exists>d t. sql_Open ext ''postgres'' (dsn (db cfg)) = Inr d
         \<and> time_ParseDuration ext (maxIdleTime (db cfg)) = Inr t
         \<and> openDB ext cfg =
             ([SetMaxOpenConns d (fst (Atoi (maxOpenConns (db cfg)))),
               SetMaxIdleConns d (fst (Atoi (maxIdleConns (db cfg)))),
               SetConnMaxIdleTime d t, Ping d (5 * Second)],
              case PingContext ext d (5 * Second) of Some err \<Rightarrow> Inl err | None \<Rightarrow> Inr d))"
  by (auto simp: openDB_def Let_def split: sum.splits option.splits)

text \<open>
  C5. \<open>openDB\<close> returns the handle \<open>d\<close> exactly when \<open>sql.Open\<close> gave \<open>d\<close>, the idle
  duration parsed and the ping of \<open>d\<close> under the 5 second timeout succeeded; it has then
  pinged once, with that timeout. Once the pool is opened and the duration parsed there
  is exactly one ping, whatever its outcome. When no handle is returned, the result is
  the error of the step that failed. No run pings more than once, and every ping has the
  5 second timeout.
\<close>

theorem openDB_handle_only_when_validated:
  "(snd (openDB ext cfg) = Inr d \<longleftrightarrow>
      sql_Open ext ''postgres'' (dsn (db cfg)) = Inr d
      \<and> (\<exists>t. time_ParseDuration ext (maxIdleTime (db cfg)) = Inr t)
      \<and> PingContext ext d (5 * Second) = None)
   \<and> (snd (openDB ext cfg) = Inr d \<longrightarrow>
        filter is_Ping (fst (openDB ext cfg)) = [Ping d (5 * Second)])
   \<and> (sql_Open ext ''postgres'' (dsn (db cfg)) = Inr d
        \<and> (\<exists>t. time_ParseDuration ext (maxIdleTime (db cfg)) = Inr t) \<longrightarrow>
        filter is_Ping (fst (openDB ext cfg)) = [Ping d (5 * Second)])
   \<and> ((\<forall>h. snd (openDB ext cfg) \<noteq> Inr h) \<longrightarrow>
        (\<exists>err. snd (openDB ext cfg) = Inl err
           \<and> (sql_Open ext ''postgres'' (dsn (db cfg)) = Inl err
              \<or> time_ParseDuration ext (maxIdleTime (db cfg)) = Inl err
              \<or> (\<exists>h. sql_Open ext ''postgres'' (dsn (db cfg)) = Inr h
                    \<and> PingContext ext h (5 * Second) = Some err))))
   \<and> length (filter is_Ping (fst (openDB ext cfg))) \<le> 1
   \<and> (\<forall>ev \<in> set (fst (openDB ext cfg)). is_Ping ev \<longrightarrow> (\<exists>h. ev = Ping h (5 * Second)))"
  using openDB_cases [of ext cfg]
  by (elim disjE exE conjE) (auto split: option.splits)

theorem openDB_handle_only_when_validated_witness:
  "snd (openDB ext_up zero_config) \<noteq> Inr (DB 0)
   \<and> snd (openDB ext_up (zero_config\<lparr>db := (db zero_config)\<lparr>maxIdleTime := ''15m''\<rparr>\<rparr>))
       = Inr (DB 0)
   \<and> filter is_Ping
        (fst (openDB ext_up (zero_config\<lparr>db := (db zero_config)\<lparr>maxIdleTime := ''15m''\<rparr>\<rparr>)))
       = [Ping (DB 0) (5 * Second)]
   \<and> snd (openDB ext_down (zero_config\<lparr>db := (db zero_config)\<lparr>maxIdleTime := ''15m''\<rparr>\<rparr>))
       = Inl (Error ''context deadline exceeded'')
   \<and> filter is_Ping
        (fst (openDB ext_down (zero_config\<lparr>db := (db zero_config)\<lparr>maxIdleTime := ''15m''\<rparr>\<rparr>)))
       = [Ping (DB 0) (5 * Second)]"
proof -
  let ?cfg = "zero_config\<lparr>db := (db zero_config)\<lparr>maxIdleTime := ''15m''\<rparr>\<rparr>"
  have up: "sql_Open ext_up ''postgres'' (dsn (db ?cfg)) = Inr (DB 0)"
    "time_ParseDuration ext_up (maxIdleTime (db ?cfg)) = Inr (900 * Second)"
    "PingContext ext_up (DB 0) (5 * Second) = None"
    by (simp_all add: ext_up_def zero_config_def)
  have bad: "\<not> (\<exists>t. time_ParseDuration ext_up (maxIdleTime (db zero_config)) = Inr t)"
    by (simp add: ext_up_def zero_config_def)
  have down: "sql_Open ext_down ''postgres'' (dsn (db ?cfg)) = Inr (DB 0)"
    "time_ParseDuration ext_down (maxIdleTime (db ?cfg)) = Inr (900 * Second)"
    "\<And>h. PingContext ext_down h (5 * Second) = Some (Error ''context deadline exceeded'')"
    by (simp_all add: ext_down_def ext_up_def zero_config_def)
  have 1: "snd (openDB ext_up zero_config) \<noteq> Inr (DB 0)"
    using openDB_handle_only_when_validated [of ext_up zero_config "DB 0"] bad by blast
  have 2: "snd (openDB ext_up ?cfg) = Inr (DB 0)"
    using openDB_handle_only_when_validated [of ext_up ?cfg "DB 0"] up by blast
  have 3: "filter is_Ping (fst (openDB ext_up ?cfg)) = [Ping (DB 0) (5 * Second)]"
    using openDB_handle_only_when_validated [of ext_up ?cfg "DB 0"] 2 by blast
  have "\<forall>h. snd (openDB ext_down ?cfg) \<noteq> Inr h"
    using openDB_handle_only_when_validated [of ext_down ?cfg] down(3) by simp
  then obtain err where e: "snd (openDB ext_down ?cfg) = Inl err"
    and w: "sql_Open ext_down ''postgres'' (dsn (db ?cfg)) = Inl err
              \<or> time_ParseDuration ext_down (maxIdleTime (db ?cfg)) = Inl err
              \<or> (\<exists>h. sql_Open ext_down ''postgres'' (dsn (db ?cfg)) = Inr h
                    \<and> PingContext ext_down h (5 * Second) = Some err)"
    using openDB_handle_only_when_validated [of ext_down ?cfg "DB 0"] by blast
  from w down have "err = Error ''context deadline exceeded''"
    by auto
  with e have 4: "snd (openDB ext_down ?cfg) = Inl (Error ''context deadline exceeded'')"
    by simp
  have 5: "filter is_Ping (fst (openDB ext_down ?cfg)) = [Ping (DB 0) (5 * Second)]"
    using openDB_handle_only_when_validated [of ext_down ?cfg "DB 0"] down(1,2) by blast
  from 1 2 3 4 5 show ?thesis by blast
qed

section \<open>The tracker's count\<close>

lemma wg_submit: "wg (submit t) = wg t + 1"
  by (simp add: submit_def)

lemma wg_finish: "wg (finish w t) = wg t - 1"
  by (cases w) (simp_all add: finish_def)

text \<open>
  The invariant of an execution: the count is the number of tasks submitted and not yet
  ended, and only submitted tasks have ended.
\<close>

lemma exec_count:
  "schedule_ok sub fin s \<Longrightarrow> set fin \<subseteq> set sub
     \<Longrightarrow> wg t = int (card (set sub - set fin))
     \<Longrightarrow> wg (exec works s t)
           = int (card ((set sub \<union> set (submitted s)) - (set fin \<union> set (finished s))))
         \<and> set fin \<union> set (finished s) \<subseteq> set sub \<union> set (submitted s)"
proof (induction sub fin s arbitrary: t rule: schedule_ok.induct)
  case (1 sub fin)
  then show ?case by simp
next
  case (2 sub fin i s)
  from "2.prems" have fresh: "i \<notin> set sub" and ok: "schedule_ok (i # sub) fin s"
    by simp_all
  from fresh "2.prems"(2) have nf: "i \<notin> set fin"
    by blast
  have "set (i # sub) - set fin = insert i (set sub - set fin)"
    using nf by auto
  moreover have "i \<notin> set sub - set fin"
    using fresh by simp
  ultimately have "card (set (i # sub) - set fin) = Suc (card (set sub - set fin))"
    by simp
  with "2.prems"(3) have c: "wg (submit t) = int (card (set (i # sub) - set fin))"
    by (simp add: wg_submit)
  have "wg (exec works s (submit t))
           = int (card ((set (i # sub) \<union> set (submitted s)) - (set fin \<union> set (finished s))))
         \<and> set fin \<union> set (finished s) \<subseteq> set (i # sub) \<union> set (submitted s)"
    using "2.IH" [OF ok _ c] "2.prems"(2) by auto
  then show ?case by simp
next
  case (3 sub fin i s)
  from "3.prems" have mem: "i \<in> set sub" and nf: "i \<notin> set fin"
    and ok: "schedule_ok sub (i # fin) s"
    by simp_all
  have "set sub - set fin = insert i (set sub - set (i # fin))"
    using mem nf by auto
  moreover have "i \<notin> set sub - set (i # fin)"
    by simp
  ultimately have "card (set sub - set fin) = Suc (card (set sub - set (i # fin)))"
    by (metis List.finite_set card_insert_disjoint finite_Diff)
  with "3.prems"(3) have c: "wg (finish (works i) t) = int (card (set sub - set (i # fin)))"
    by (simp add: wg_finish)
  have "wg (exec works s (finish (works i) t))
           = int (card ((set sub \<union> set (submitted s)) - (set (i # fin) \<union> set (finished s))))
         \<and> set (i # fin) \<union> set (finished s) \<subseteq> set sub \<union> set (submitted s)"
    using "3.IH" [OF ok _ c] mem "3.prems"(2) by auto
  then show ?case by simp
qed

text \<open>
  C6. In every possible interleaving of submitted tasks, whichever of them fail, the
  outstanding count is the number of tasks submitted and not yet ended. So the wait for
  the drain is unblocked exactly when every submitted task has ended, and the count is
  then zero.
\<close>

theorem tracker_count_is_outstanding_tasks:
  assumes "schedule_ok [] [] s"
  shows "wg (exec works s new_tracker) = int (card (set (submitted s) - set (finished s)))
     \<and> (drain_unblocked (exec works s new_tracker)
          \<longleftrightarrow> set (submitted s) \<subseteq> set (finished s))
     \<and> (set (submitted s) \<subseteq> set (finished s) \<longrightarrow> wg (exec works s new_tracker) = 0)"
proof -
  have c: "wg (exec works s new_tracker) = int (card (set (submitted s) - set (finished s)))"
    using exec_count [OF assms, of new_tracker works] by (simp add: new_tracker_def)
  have "finite (set (submitted s) - set (finished s))"
    by simp
  then have "card (set (submitted s) - set (finished s)) = 0
      \<longleftrightarrow> set (submitted s) \<subseteq> set (finished s)"
    by (simp add: card_eq_0_iff)
  with c show ?thesis
    by (simp add: drain_unblocked_def)
qed

theorem tracker_count_is_outstanding_tasks_witness:
  "schedule_ok [] [] three_tasks
   \<and> wg (exec three_works three_tasks new_tracker) = 0
   \<and> drain_unblocked (exec three_works three_tasks new_tracker)
   \<and> \<not> drain_unblocked (exec three_works (take 5 three_tasks) new_tracker)"
proof -
  have ok: "schedule_ok [] [] three_tasks"
    by (simp add: three_tasks_def)
  have ok5: "schedule_ok [] [] (take 5 three_tasks)"
    by (simp add: three_tasks_def)
  have all: "set (submitted three_tasks) \<subseteq> set (finished three_tasks)"
    by (simp add: three_tasks_def)
  have some: "\<not> set (submitted (take 5 three_tasks)) \<subseteq> set (finished (take 5 three_tasks))"
    by (simp add: three_tasks_def)
  from tracker_count_is_outstanding_tasks [OF ok, of three_works] all
  have "wg (exec three_works three_tasks new_tracker) = 0"
    and "drain_unblocked (exec three_works three_tasks new_tracker)"
    by blast+
  moreover from tracker_count_is_outstanding_tasks [OF ok5, of three_works] some
  have "\<not> drain_unblocked (exec three_works (take 5 three_tasks) new_tracker)"
    by blast
  ultimately show ?thesis using ok by blast
qed

text \<open>The scenario of the spec: the count goes 0, 1, 2, 3, 2, 1, 0 and the failure is reported.\<close>

lemma three_tasks_counts:
  "map (\<lambda>n. wg (exec three_works (take n three_tasks) new_tracker)) [0, 1, 2, 3, 4, 5, 6]
     = [0, 1, 2, 3, 2, 1, 0]
   \<and> reported (exec three_works three_tasks new_tracker) = [''panic: send failed'']"
  by (simp add: three_tasks_def three_works_def new_tracker_def submit_def finish_def)

end
